theory Spec2Isabelle
  imports Main "HOL-Library.AList" "HOL-Library.Word"
begin

section \<open>Dependency flags and capabilities\<close>

text \<open>
  The module \<^verbatim>\<open>backend/mcp_server.py\<close> tries to import each optional package once, when it
  is loaded, and keeps the outcome in a module-level boolean \<^verbatim>\<open>HAS_...\<close>. The record below
  holds these globals, one field per flag, in the order of the import blocks. (The second
  series of blocks binds \<^verbatim>\<open>HAS_..._ALT\<close> names that no function reads.)
\<close>

record flags =
  HAS_PSUTIL :: bool
  HAS_REQUESTS :: bool
  HAS_NUMPY :: bool
  HAS_GPUTIL :: bool
  HAS_QUANTUMRANDOM :: bool
  HAS_QISKIT :: bool
  HAS_MATPLOTLIB :: bool
  HAS_OPENCV :: bool
  HAS_TORCH :: bool
  HAS_TENSORFLOW :: bool
  HAS_PANDAS :: bool
  HAS_SCIPY :: bool
  HAS_SKLEARN :: bool
  HAS_JOBLIB :: bool
  HAS_PICKLE :: bool
  HAS_JSONLINES :: bool
  HAS_TOML :: bool
  HAS_YAML :: bool
  HAS_DISTUTILS :: bool
  HAS_VIRTUALENV :: bool
  HAS_CONDA :: bool
  HAS_POETRY :: bool
  HAS_PIPENV :: bool
  HAS_PIPDEPTREE :: bool
  HAS_SAFETY :: bool
  HAS_BANDIT :: bool
  HAS_PYLINT :: bool
  HAS_BLACK :: bool
  HAS_ISORT :: bool
  HAS_FLAKE8 :: bool
  HAS_PROFILING :: bool
  HAS_MEMORY_PROFILER :: bool
  HAS_LINE_PROFILER :: bool

text \<open>The dataclass \<^verbatim>\<open>MCPCapabilities\<close>, field for field.\<close>

record MCPCapabilities =
  gpu_monitoring :: bool
  quantum_random :: bool
  quantum_computing :: bool
  image_processing :: bool
  machine_learning :: bool
  deep_learning :: bool
  data_analysis :: bool
  visualization :: bool
  profiling :: bool
  code_quality :: bool
  package_management :: bool

text \<open>
  \<^verbatim>\<open>MCPServer._detect_capabilities\<close>. The flags are Python booleans, so \<^verbatim>\<open>and\<close> and
  \<^verbatim>\<open>or\<close> are conjunction and disjunction.
\<close>

definition detect_capabilities :: "flags \<Rightarrow> MCPCapabilities" where
  "detect_capabilities g =
     \<lparr> gpu_monitoring = HAS_GPUTIL g \<and> HAS_PSUTIL g,
       quantum_random = HAS_QUANTUMRANDOM g,
       quantum_computing = HAS_QISKIT g,
       image_processing = HAS_OPENCV g,
       machine_learning = HAS_SKLEARN g \<and> HAS_NUMPY g,
       deep_learning = HAS_TORCH g \<or> HAS_TENSORFLOW g,
       data_analysis = HAS_PANDAS g \<and> HAS_NUMPY g,
       visualization = HAS_MATPLOTLIB g,
       profiling = HAS_PROFILING g \<or> HAS_MEMORY_PROFILER g \<or> HAS_LINE_PROFILER g,
       code_quality = HAS_PYLINT g \<or> HAS_BLACK g \<or> HAS_ISORT g \<or> HAS_FLAKE8 g,
       package_management = HAS_POETRY g \<or> HAS_PIPENV g \<or> HAS_PIPDEPTREE g \<rparr>"


section \<open>Values, exceptions and the state of the program\<close>

text \<open>
  The dictionaries the operations return hold strings, integers, booleans, lists and further
  dictionaries. A dictionary is an association list in insertion order, as a Python
  \<^verbatim>\<open>dict\<close> is. A float is the pair of a mantissa \<open>m\<close> and an exponent \<open>e\<close>, for
  \<open>m * 2 ^ e\<close>; no floating-point arithmetic is computed here.
\<close>

datatype pyval =
    PyNone
  | PyBool bool
  | PyInt int
  | PyFloat int int
  | PyStr string
  | PyList "pyval list"
  | PyDict "(string \<times> pyval) list"

text \<open>\<^verbatim>\<open>d[k] = v\<close>: the value of an existing key is replaced in place, a new key is appended.
  The program subscripts dictionaries only; another value is left as it is.\<close>

fun setitem :: "pyval \<Rightarrow> string \<Rightarrow> pyval \<Rightarrow> pyval" where
  "setitem (PyDict kvs) k v = PyDict (AList.update k v kvs)"
| "setitem d k v = d"

text \<open>\<^verbatim>\<open>d[k1][k2] = v\<close>, for a key \<^verbatim>\<open>k1\<close> that \<^verbatim>\<open>d\<close> has.\<close>

fun setitem2 :: "pyval \<Rightarrow> string \<Rightarrow> string \<Rightarrow> pyval \<Rightarrow> pyval" where
  "setitem2 (PyDict kvs) k1 k2 v = PyDict (AList.map_entry k1 (\<lambda>d. setitem d k2 v) kvs)"
| "setitem2 d k1 k2 v = d"

text \<open>\<^verbatim>\<open>d.get(k)\<close>: \<open>None\<close> is the absence of the key.\<close>

fun getitem :: "pyval \<Rightarrow> string \<Rightarrow> pyval option" where
  "getitem (PyDict kvs) k = map_of kvs k"
| "getitem d k = None"

fun keys :: "pyval \<Rightarrow> string list" where
  "keys (PyDict kvs) = map fst kvs"
| "keys d = []"

text \<open>
  The exceptions that \<^verbatim>\<open>except Exception\<close> catches. \<^verbatim>\<open>PackageNotFoundError\<close> carries the
  name that was looked up, any other exception its text.
\<close>

datatype exn = PackageNotFoundError string | Exception string

fun str :: "exn \<Rightarrow> string" where
  "str (PackageNotFoundError name) = ''No package metadata was found for '' @ name"
| "str (Exception msg) = msg"

type_synonym bytes = "8 word list"

type_synonym datetime = nat

text \<open>A child process that has run to its end: what \<^verbatim>\<open>process.communicate()\<close> and
  \<^verbatim>\<open>process.returncode\<close> give.\<close>

record completed =
  returncode :: int
  stdout :: bytes
  stderr :: bytes

record svmem =
  percent :: pyval
  total :: pyval

record GPU =
  gpu_id :: pyval
  gpu_name :: pyval
  memoryUsed :: pyval
  memoryTotal :: pyval
  temperature :: pyval
  load :: pyval

text \<open>
  Everything outside the module is a parameter: the interpreter's constants, the package
  metadata, the file system, the child processes and the metrics libraries. \<open>'w\<close> is the
  state of that outside world; a call that may change it returns the new one. A call
  that may raise returns \<open>Inl\<close> of the exception.
  \<^item> \<open>metadata_version\<close> is \<^verbatim>\<open>importlib.metadata.version\<close>, by its documented contract:
    the version of the distribution, or \<^verbatim>\<open>PackageNotFoundError\<close> (here \<open>None\<close>).
  \<^item> \<open>subprocess_exec\<close> is \<^verbatim>\<open>asyncio.create_subprocess_exec\<close> followed by
    \<^verbatim>\<open>process.communicate()\<close>, the two awaits that every launch in the module makes
    together; \<open>Inl\<close> when either raises.
  \<^item> \<open>decode\<close> is \<^verbatim>\<open>bytes.decode\<close>.
  \<^item> \<open>total_gb\<close> is the float computation \<^verbatim>\<open>round(total / (1024**3), 2)\<close>.
  \<^item> \<open>psutil_disk_usage_percent path\<close> is \<^verbatim>\<open>psutil.disk_usage(path).percent\<close>.
\<close>

record 'w environment =
  sys_executable :: string
  sys_version :: string
  os_name :: string
  platform_platform :: "'w \<Rightarrow> string"
  uuid4 :: "'w \<Rightarrow> string \<times> 'w"
  datetime_now :: "'w \<Rightarrow> datetime \<times> 'w"
  isoformat :: "datetime \<Rightarrow> string"
  metadata_version :: "'w \<Rightarrow> string \<Rightarrow> string option"
  os_path_exists :: "'w \<Rightarrow> string \<Rightarrow> bool"
  subprocess_exec :: "string list \<Rightarrow> 'w \<Rightarrow> (exn + completed) \<times> 'w"
  decode :: "bytes \<Rightarrow> exn + string"
  psutil_cpu_percent :: "'w \<Rightarrow> (exn + pyval) \<times> 'w"
  psutil_virtual_memory :: "'w \<Rightarrow> (exn + svmem) \<times> 'w"
  psutil_disk_usage_percent :: "string \<Rightarrow> 'w \<Rightarrow> (exn + pyval) \<times> 'w"
  psutil_cpu_count :: "'w \<Rightarrow> (exn + pyval) \<times> 'w"
  total_gb :: "pyval \<Rightarrow> exn + pyval"
  GPUtil_getGPUs :: "'w \<Rightarrow> (exn + GPU list) \<times> 'w"

text \<open>The attributes that \<^verbatim>\<open>MCPServer.__init__\<close> sets.\<close>

record MCPServer =
  capabilities :: MCPCapabilities
  session_id :: string
  start_time :: datetime

text \<open>
  The state a method runs in: the module's flags, the server object, the outside world,
  and \<open>spawned\<close>, a log of the argument vector of every call of
  \<^verbatim>\<open>asyncio.create_subprocess_exec\<close> so far (the log is not in the program; it is
  there to state which child processes an operation starts).
\<close>

record 'w state =
  py_globals :: flags
  self :: MCPServer
  world :: 'w
  spawned :: "string list list"

text \<open>
  A statement takes the state and returns the state after it, with either its value or
  the exception it raised. \<open>bind_io\<close> is sequencing: an exception of the first statement
  skips the second. \<open>try_except\<close> is \<^verbatim>\<open>try: ... except ... as e: ...\<close>; a handler for one
  class of exception raises the others again. Calls of the logger are left out.
\<close>

type_synonym ('w, 'a) io = "'w state \<Rightarrow> (exn + 'a) \<times> 'w state"

definition return_io :: "'a \<Rightarrow> ('w, 'a) io" where
  "return_io x = (\<lambda>s. (Inr x, s))"

definition raise_io :: "exn \<Rightarrow> ('w, 'a) io" where
  "raise_io e = (\<lambda>s. (Inl e, s))"

definition bind_io :: "('w, 'a) io \<Rightarrow> ('a \<Rightarrow> ('w, 'b) io) \<Rightarrow> ('w, 'b) io" where
  "bind_io m f = (\<lambda>s. case m s of (Inl e, s') \<Rightarrow> (Inl e, s') | (Inr x, s') \<Rightarrow> f x s')"

definition try_except :: "('w, 'a) io \<Rightarrow> (exn \<Rightarrow> ('w, 'a) io) \<Rightarrow> ('w, 'a) io" where
  "try_except m h = (\<lambda>s. case m s of (Inl e, s') \<Rightarrow> h e s' | (Inr x, s') \<Rightarrow> (Inr x, s'))"

definition get_global :: "(flags \<Rightarrow> 'a) \<Rightarrow> ('w, 'a) io" where
  "get_global f = (\<lambda>s. (Inr (f (py_globals s)), s))"

definition get_self :: "(MCPServer \<Rightarrow> 'a) \<Rightarrow> ('w, 'a) io" where
  "get_self f = (\<lambda>s. (Inr (f (self s)), s))"

definition read_world :: "('w \<Rightarrow> 'a) \<Rightarrow> ('w, 'a) io" where
  "read_world f = (\<lambda>s. (Inr (f (world s)), s))"

definition call :: "('w \<Rightarrow> (exn + 'a) \<times> 'w) \<Rightarrow> ('w, 'a) io" where
  "call f = (\<lambda>s. case f (world s) of (r, w') \<Rightarrow> (r, s\<lparr>world := w'\<rparr>))"

definition lift :: "exn + 'a \<Rightarrow> ('w, 'a) io" where
  "lift r = (\<lambda>s. (r, s))"

definition version :: "'w environment \<Rightarrow> string \<Rightarrow> ('w, string) io" where
  "version env name = (\<lambda>s. case metadata_version env (world s) name of
       None \<Rightarrow> (Inl (PackageNotFoundError name), s)
     | Some v \<Rightarrow> (Inr v, s))"

definition create_subprocess_exec :: "'w environment \<Rightarrow> string list \<Rightarrow> ('w, completed) io" where
  "create_subprocess_exec env argv = (\<lambda>s. case subprocess_exec env argv (world s) of
       (r, w') \<Rightarrow> (r, s\<lparr>world := w', spawned := spawned s @ [argv]\<rparr>))"

text \<open>\<^verbatim>\<open>MCPServer.__init__\<close>: the capabilities are computed from the flags, once.\<close>

definition init :: "'w environment \<Rightarrow> flags \<Rightarrow> 'w \<Rightarrow> 'w state" where
  "init env g w =
     (let caps = detect_capabilities g;
          (sid, w1) = uuid4 env w;
          (now, w2) = datetime_now env w1
      in \<lparr> py_globals = g,
           self = \<lparr> capabilities = caps, session_id = sid, start_time = now \<rparr>,
           world = w2, spawned = [] \<rparr>)"


section \<open>System information\<close>

text \<open>The list \<^verbatim>\<open>packages_to_check\<close> of \<^verbatim>\<open>get_system_info\<close>.\<close>

definition packages_to_check :: "flags \<Rightarrow> (string \<times> bool) list" where
  "packages_to_check g =
     [ (''psutil'', HAS_PSUTIL g),
       (''requests'', HAS_REQUESTS g),
       (''numpy'', HAS_NUMPY g),
       (''GPUtil'', HAS_GPUTIL g),
       (''quantumrandom'', HAS_QUANTUMRANDOM g),
       (''qiskit'', HAS_QISKIT g),
       (''matplotlib'', HAS_MATPLOTLIB g),
       (''opencv-python'', HAS_OPENCV g),
       (''torch'', HAS_TORCH g),
       (''tensorflow'', HAS_TENSORFLOW g),
       (''pandas'', HAS_PANDAS g),
       (''scipy'', HAS_SCIPY g),
       (''scikit-learn'', HAS_SKLEARN g),
       (''joblib'', HAS_JOBLIB g),
       (''jsonlines'', HAS_JSONLINES g),
       (''toml'', HAS_TOML g),
       (''PyYAML'', HAS_YAML g),
       (''virtualenv'', HAS_VIRTUALENV g),
       (''conda'', HAS_CONDA g),
       (''poetry'', HAS_POETRY g),
       (''pipenv'', HAS_PIPENV g),
       (''pipdeptree'', HAS_PIPDEPTREE g),
       (''safety'', HAS_SAFETY g),
       (''bandit'', HAS_BANDIT g),
       (''pylint'', HAS_PYLINT g),
       (''black'', HAS_BLACK g),
       (''isort'', HAS_ISORT g),
       (''flake8'', HAS_FLAKE8 g),
       (''profiling'', HAS_PROFILING g),
       (''memory-profiler'', HAS_MEMORY_PROFILER g),
       (''line-profiler'', HAS_LINE_PROFILER g) ]"

text \<open>\<^verbatim>\<open>self.capabilities.__dict__\<close>: the fields of the dataclass, in their order.\<close>

definition capabilities_dict :: "MCPCapabilities \<Rightarrow> pyval" where
  "capabilities_dict c = PyDict
     [ (''gpu_monitoring'', PyBool (gpu_monitoring c)),
       (''quantum_random'', PyBool (quantum_random c)),
       (''quantum_computing'', PyBool (quantum_computing c)),
       (''image_processing'', PyBool (image_processing c)),
       (''machine_learning'', PyBool (machine_learning c)),
       (''deep_learning'', PyBool (deep_learning c)),
       (''data_analysis'', PyBool (data_analysis c)),
       (''visualization'', PyBool (visualization c)),
       (''profiling'', PyBool (profiling c)),
       (''code_quality'', PyBool (code_quality c)),
       (''package_management'', PyBool (package_management c)) ]"

text \<open>The loop over \<^verbatim>\<open>packages_to_check\<close>; \<open>info\<close> is the dictionary being filled.\<close>

fun check_packages :: "'w environment \<Rightarrow> (string \<times> bool) list \<Rightarrow> pyval \<Rightarrow> ('w, pyval) io" where
  "check_packages env [] info = return_io info"
| "check_packages env ((package_name, is_available) # rest) info =
     bind_io
       (if is_available then
          try_except
            (bind_io (version env package_name) (\<lambda>v.
             return_io (setitem2 info ''installed_packages'' package_name (PyStr v))))
            (\<lambda>e. case e of
               PackageNotFoundError _ \<Rightarrow>
                 return_io (setitem2 info ''installed_packages'' package_name (PyStr ''unknown''))
             | _ \<Rightarrow> raise_io e)
        else return_io info)
       (check_packages env rest)"

text \<open>The dictionary display under \<^verbatim>\<open>"system_resources"\<close>; its items are evaluated from
  left to right.\<close>

definition system_resources :: "'w environment \<Rightarrow> ('w, pyval) io" where
  "system_resources env =
     bind_io (call (psutil_cpu_percent env)) (\<lambda>cpu.
     bind_io (call (psutil_virtual_memory env)) (\<lambda>vm.
     bind_io (call (psutil_disk_usage_percent env
                (if os_name env \<noteq> ''nt'' then ''/'' else ''C:''))) (\<lambda>disk.
     bind_io (call (psutil_cpu_count env)) (\<lambda>n.
     bind_io (call (psutil_virtual_memory env)) (\<lambda>vm'.
     bind_io (lift (total_gb env (total vm'))) (\<lambda>gb.
     return_io (PyDict
       [ (''cpu_percent'', cpu),
         (''memory_percent'', percent vm),
         (''disk_usage'', disk),
         (''cpu_count'', n),
         (''memory_total_gb'', gb) ])))))))"

definition gpu_dict :: "GPU \<Rightarrow> pyval" where
  "gpu_dict gpu = PyDict
     [ (''id'', gpu_id gpu),
       (''name'', gpu_name gpu),
       (''memory_used'', memoryUsed gpu),
       (''memory_total'', memoryTotal gpu),
       (''temperature'', temperature gpu),
       (''load'', load gpu) ]"

text \<open>\<^verbatim>\<open>MCPServer.get_system_info\<close>.\<close>

definition get_system_info :: "'w environment \<Rightarrow> ('w, pyval) io" where
  "get_system_info env =
     bind_io (get_self session_id) (\<lambda>sid.
     bind_io (get_self start_time) (\<lambda>t.
     bind_io (read_world (platform_platform env)) (\<lambda>pf.
     bind_io (get_self capabilities) (\<lambda>caps.
     bind_io (get_global packages_to_check) (\<lambda>pkgs.
     bind_io (check_packages env pkgs (PyDict
       [ (''session_id'', PyStr sid),
         (''start_time'', PyStr (isoformat env t)),
         (''platform'', PyStr pf),
         (''python_version'', PyStr (sys_version env)),
         (''capabilities'', capabilities_dict caps),
         (''installed_packages'', PyDict []) ])) (\<lambda>info.
     bind_io (get_global HAS_PSUTIL) (\<lambda>has_psutil.
     bind_io
       (if has_psutil then
          try_except
            (bind_io (system_resources env) (\<lambda>r.
             return_io (setitem info ''system_resources'' r)))
            (\<lambda>e. return_io info)
        else return_io info) (\<lambda>info.
     bind_io (get_global HAS_GPUTIL) (\<lambda>has_gputil.
     bind_io
       (if has_gputil then
          try_except
            (bind_io (call (GPUtil_getGPUs env)) (\<lambda>gpus.
             return_io (setitem info ''gpus'' (PyList (map gpu_dict gpus)))))
            (\<lambda>e. return_io info)
        else return_io info) (\<lambda>info.
     return_io info))))))))))"




definition world_only :: "('w, 'a) io \<Rightarrow> bool" where
  "world_only m \<longleftrightarrow> (\<forall>s. \<exists>r w'. m s = (r, s\<lparr>world := w'\<rparr>))"


section \<open>Installing packages\<close>

text \<open>
  One iteration of the loop of \<^verbatim>\<open>install_missing_packages\<close>. The inner \<^verbatim>\<open>try\<close> yields
  whether the version was found; \<^verbatim>\<open>continue\<close> is the branch that starts no process.
\<close>

definition install_package :: "'w environment \<Rightarrow> string \<Rightarrow> pyval \<Rightarrow> ('w, pyval) io" where
  "install_package env package results =
     try_except
       (bind_io
          (try_except
             (bind_io (version env package) (\<lambda>v. return_io True))
             (\<lambda>e. case e of PackageNotFoundError _ \<Rightarrow> return_io False | _ \<Rightarrow> raise_io e))
          (\<lambda>found.
             if found then return_io (setitem results package (PyStr ''already_installed''))
             else
               bind_io (create_subprocess_exec env
                          [sys_executable env, ''-m'', ''pip'', ''install'', package]) (\<lambda>process.
               if returncode process = 0 then
                 return_io (setitem results package (PyStr ''installed''))
               else
                 bind_io (lift (decode env (stderr process))) (\<lambda>err.
                 return_io (setitem results package (PyStr (''failed: '' @ err)))))))
       (\<lambda>e. return_io (setitem results package (PyStr (''error: '' @ str e))))"

fun install_loop :: "'w environment \<Rightarrow> string list \<Rightarrow> pyval \<Rightarrow> ('w, pyval) io" where
  "install_loop env [] results = return_io results"
| "install_loop env (package # packages) results =
     bind_io (install_package env package results) (install_loop env packages)"

text \<open>\<^verbatim>\<open>MCPServer.install_missing_packages\<close>.\<close>

definition install_missing_packages :: "'w environment \<Rightarrow> string list \<Rightarrow> ('w, pyval) io" where
  "install_missing_packages env packages = install_loop env packages (PyDict [])"


text \<open>
  The command of the installer for one package, and the text that an iteration stores for
  the package as a function of the outcome of the launch.
\<close>

definition pip_install :: "'w environment \<Rightarrow> string \<Rightarrow> string list" where
  "pip_install env package = [sys_executable env, ''-m'', ''pip'', ''install'', package]"

definition install_outcome :: "'w environment \<Rightarrow> exn + completed \<Rightarrow> string" where
  "install_outcome env r =
     (case r of
        Inl e \<Rightarrow> ''error: '' @ str e
      | Inr process \<Rightarrow>
          if returncode process = 0 then ''installed''
          else (case decode env (stderr process) of
                  Inl e \<Rightarrow> ''error: '' @ str e
                | Inr err \<Rightarrow> ''failed: '' @ err))"


section \<open>Code quality checks and formatters\<close>

text \<open>
  The \<^verbatim>\<open>try\<close> statement that runs one tool; the five of them differ in the command, in
  the section of \<open>results\<close> they write to, and in the key.
\<close>

definition run_tool ::
  "'w environment \<Rightarrow> pyval \<Rightarrow> string \<Rightarrow> string \<Rightarrow> string list \<Rightarrow> ('w, pyval) io" where
  "run_tool env results section tool argv =
     try_except
       (bind_io (create_subprocess_exec env argv) (\<lambda>process.
        bind_io (lift (decode env (stdout process))) (\<lambda>out.
        bind_io (lift (decode env (stderr process))) (\<lambda>err.
        return_io (setitem2 results section tool (PyDict
          [ (''exit_code'', PyInt (returncode process)),
            (''output'', PyStr out),
            (''errors'', PyStr err) ]))))))
       (\<lambda>e. return_io (setitem2 results section tool (PyDict [(''error'', PyStr (str e))])))"

text \<open>
  What that statement stores under the tool's key, as a function of the outcome of the
  launch: the exit code and the two decoded streams, or the text of the exception when
  the launch or a decoding raised.
\<close>

definition tool_entry :: "'w environment \<Rightarrow> exn + completed \<Rightarrow> pyval" where
  "tool_entry env r =
     (case r of
        Inl e \<Rightarrow> PyDict [(''error'', PyStr (str e))]
      | Inr process \<Rightarrow>
          (case decode env (stdout process) of
             Inl e \<Rightarrow> PyDict [(''error'', PyStr (str e))]
           | Inr out \<Rightarrow>
               (case decode env (stderr process) of
                  Inl e \<Rightarrow> PyDict [(''error'', PyStr (str e))]
                | Inr err \<Rightarrow> PyDict
                    [ (''exit_code'', PyInt (returncode process)),
                      (''output'', PyStr out),
                      (''errors'', PyStr err) ])))"

text \<open>\<^verbatim>\<open>MCPServer.run_code_quality_check\<close>.\<close>

definition run_code_quality_check :: "'w environment \<Rightarrow> string \<Rightarrow> ('w, pyval) io" where
  "run_code_quality_check env file_path =
     bind_io (return_io (PyDict [(''file'', PyStr file_path), (''checks'', PyDict [])])) (\<lambda>results.
     bind_io (read_world (\<lambda>w. os_path_exists env w file_path)) (\<lambda>exists.
     if \<not> exists then return_io (setitem results ''error'' (PyStr ''File not found''))
     else
       bind_io (get_global HAS_PYLINT) (\<lambda>has_pylint.
       bind_io (if has_pylint
                then run_tool env results ''checks'' ''pylint'' [''pylint'', file_path]
                else return_io results) (\<lambda>results.
       bind_io (get_global HAS_FLAKE8) (\<lambda>has_flake8.
       bind_io (if has_flake8
                then run_tool env results ''checks'' ''flake8'' [''flake8'', file_path]
                else return_io results) (\<lambda>results.
       bind_io (get_global HAS_BANDIT) (\<lambda>has_bandit.
       bind_io (if has_bandit
                then run_tool env results ''checks'' ''bandit''
                       [''bandit'', ''-f'', ''json'', file_path]
                else return_io results) (\<lambda>results.
       return_io results))))))))"

text \<open>\<^verbatim>\<open>MCPServer.format_code\<close>.\<close>

definition format_code :: "'w environment \<Rightarrow> string \<Rightarrow> ('w, pyval) io" where
  "format_code env file_path =
     bind_io (return_io (PyDict [(''file'', PyStr file_path), (''formatters'', PyDict [])])) (\<lambda>results.
     bind_io (read_world (\<lambda>w. os_path_exists env w file_path)) (\<lambda>exists.
     if \<not> exists then return_io (setitem results ''error'' (PyStr ''File not found''))
     else
       bind_io (get_global HAS_BLACK) (\<lambda>has_black.
       bind_io (if has_black
                then run_tool env results ''formatters'' ''black''
                       [''black'', ''--check'', ''--diff'', file_path]
                else return_io results) (\<lambda>results.
       bind_io (get_global HAS_ISORT) (\<lambda>has_isort.
       bind_io (if has_isort
                then run_tool env results ''formatters'' ''isort''
                       [''isort'', ''--check-only'', ''--diff'', file_path]
                else return_io results) (\<lambda>results.
       return_io results))))))"


section \<open>Recommendations\<close>

text \<open>\<^verbatim>\<open>MCPServer.get_missing_packages_recommendations\<close>: a dictionary from a category
  to a list of package names, here with the list as the value.\<close>

definition recommend ::
  "bool \<Rightarrow> string \<Rightarrow> string list \<Rightarrow> (string \<times> string list) list \<Rightarrow> (string \<times> string list) list" where
  "recommend capability category packages recommendations =
     (if \<not> capability then AList.update category packages recommendations else recommendations)"

definition get_missing_packages_recommendations :: "MCPServer \<Rightarrow> (string \<times> string list) list" where
  "get_missing_packages_recommendations slf =
     (let c = capabilities slf;
          recommendations = [];
          recommendations = recommend (gpu_monitoring c) ''GPU Monitoring''
            [''GPUtil'', ''psutil''] recommendations;
          recommendations = recommend (quantum_random c) ''Quantum Random''
            [''quantumrandom''] recommendations;
          recommendations = recommend (quantum_computing c) ''Quantum Computing''
            [''qiskit'', ''qiskit-aer''] recommendations;
          recommendations = recommend (image_processing c) ''Image Processing''
            [''opencv-python'', ''Pillow''] recommendations;
          recommendations = recommend (machine_learning c) ''Machine Learning''
            [''scikit-learn'', ''numpy'', ''pandas''] recommendations;
          recommendations = recommend (deep_learning c) ''Deep Learning''
            [''torch'', ''tensorflow''] recommendations;
          recommendations = recommend (data_analysis c) ''Data Analysis''
            [''pandas'', ''numpy'', ''scipy''] recommendations;
          recommendations = recommend (visualization c) ''Visualization''
            [''matplotlib'', ''seaborn'', ''plotly''] recommendations;
          recommendations = recommend (profiling c) ''Profiling''
            [''memory-profiler'', ''line-profiler'', ''py-spy''] recommendations;
          recommendations = recommend (code_quality c) ''Code Quality''
            [''pylint'', ''black'', ''isort'', ''flake8'', ''bandit''] recommendations;
          recommendations = recommend (package_management c) ''Package Management''
            [''poetry'', ''pipenv'', ''pipdeptree''] recommendations
      in recommendations)"

text \<open>
  Two devices for the proofs about the recommendations: the eleven \<^verbatim>\<open>if\<close> statements of
  \<^verbatim>\<open>get_missing_packages_recommendations\<close> as a list of the capability tested, the
  category and the packages, and the statements run in sequence over such a list.
\<close>

definition table :: "MCPCapabilities \<Rightarrow> (bool \<times> string \<times> string list) list" where
  "table c =
    [ (gpu_monitoring c, ''GPU Monitoring'', [''GPUtil'', ''psutil'']),
      (quantum_random c, ''Quantum Random'', [''quantumrandom'']),
      (quantum_computing c, ''Quantum Computing'', [''qiskit'', ''qiskit-aer'']),
      (image_processing c, ''Image Processing'', [''opencv-python'', ''Pillow'']),
      (machine_learning c, ''Machine Learning'', [''scikit-learn'', ''numpy'', ''pandas'']),
      (deep_learning c, ''Deep Learning'', [''torch'', ''tensorflow'']),
      (data_analysis c, ''Data Analysis'', [''pandas'', ''numpy'', ''scipy'']),
      (visualization c, ''Visualization'', [''matplotlib'', ''seaborn'', ''plotly'']),
      (profiling c, ''Profiling'', [''memory-profiler'', ''line-profiler'', ''py-spy'']),
      (code_quality c, ''Code Quality'', [''pylint'', ''black'', ''isort'', ''flake8'', ''bandit'']),
      (package_management c, ''Package Management'', [''poetry'', ''pipenv'', ''pipdeptree'']) ]"

fun recommend_all ::
  "(bool \<times> string \<times> string list) list \<Rightarrow> (string \<times> string list) list \<Rightarrow> (string \<times> string list) list" where
  "recommend_all [] r = r"
| "recommend_all ((b, c, ps) # t) r = recommend_all t (recommend b c ps r)"


section \<open>Concrete inputs\<close>

text \<open>
  An environment to evaluate the operations in. Its world is the list of the installed
  distributions. The only file is \<^verbatim>\<open>app.py\<close>. Launching \<^verbatim>\<open>flake8\<close> or \<^verbatim>\<open>isort\<close>, or
  installing \<^verbatim>\<open>nolaunch\<close>, raises; installing \<^verbatim>\<open>broken\<close> exits with code 1 and
  \<^verbatim>\<open>boom\<close> on the error stream; installing \<^verbatim>\<open>garbled\<close> exits with code 1 and the
  byte \<^verbatim>\<open>0xff\<close>, which is not UTF-8, on the error stream; any other installation
  succeeds and adds the distribution. Every metrics read raises.
\<close>

definition all_flags :: "bool \<Rightarrow> flags" where
  "all_flags b =
     \<lparr> HAS_PSUTIL = b, HAS_REQUESTS = b, HAS_NUMPY = b, HAS_GPUTIL = b,
       HAS_QUANTUMRANDOM = b, HAS_QISKIT = b, HAS_MATPLOTLIB = b, HAS_OPENCV = b,
       HAS_TORCH = b, HAS_TENSORFLOW = b, HAS_PANDAS = b, HAS_SCIPY = b, HAS_SKLEARN = b,
       HAS_JOBLIB = b, HAS_PICKLE = b, HAS_JSONLINES = b, HAS_TOML = b, HAS_YAML = b,
       HAS_DISTUTILS = b, HAS_VIRTUALENV = b, HAS_CONDA = b, HAS_POETRY = b,
       HAS_PIPENV = b, HAS_PIPDEPTREE = b, HAS_SAFETY = b, HAS_BANDIT = b,
       HAS_PYLINT = b, HAS_BLACK = b, HAS_ISORT = b, HAS_FLAKE8 = b,
       HAS_PROFILING = b, HAS_MEMORY_PROFILER = b, HAS_LINE_PROFILER = b \<rparr>"

definition boom :: bytes where
  "boom = [98, 111, 111, 109]"

definition demo_exec :: "string list \<Rightarrow> string list \<Rightarrow> (exn + completed) \<times> string list" where
  "demo_exec argv w =
     (if hd argv \<in> {''flake8'', ''isort''} \<or> last argv = ''nolaunch'' then
        (Inl (Exception ''No such file or directory''), w)
      else if last argv = ''broken'' then
        (Inr \<lparr> returncode = 1, stdout = [], stderr = boom \<rparr>, w)
      else if last argv = ''garbled'' then
        (Inr \<lparr> returncode = 1, stdout = [], stderr = [255] \<rparr>, w)
      else if hd argv = ''python3'' then
        (Inr \<lparr> returncode = 0, stdout = [], stderr = [] \<rparr>, last argv # w)
      else (Inr \<lparr> returncode = 0, stdout = [], stderr = [] \<rparr>, w))"

definition demo_decode :: "bytes \<Rightarrow> exn + string" where
  "demo_decode bs =
     (if bs = [] then Inr [] else if bs = boom then Inr ''boom''
      else Inl (Exception ''codec cannot decode byte 0xff in position 0: invalid start byte''))"

definition demo_env :: "string list environment" where
  "demo_env =
     \<lparr> sys_executable = ''python3'',
       sys_version = ''3.11'',
       os_name = ''posix'',
       platform_platform = (\<lambda>w. ''Linux''),
       uuid4 = (\<lambda>w. (''session-1'', w)),
       datetime_now = (\<lambda>w. (0, w)),
       isoformat = (\<lambda>t. ''1970-01-01T00:00:00''),
       metadata_version = (\<lambda>w name. if name \<in> set w then Some ''1.0'' else None),
       os_path_exists = (\<lambda>w path. path = ''app.py''),
       subprocess_exec = demo_exec,
       decode = demo_decode,
       psutil_cpu_percent = (\<lambda>w. (Inl (Exception ''access denied''), w)),
       psutil_virtual_memory = (\<lambda>w. (Inl (Exception ''access denied''), w)),
       psutil_disk_usage_percent = (\<lambda>path w. (Inl (Exception ''access denied''), w)),
       psutil_cpu_count = (\<lambda>w. (Inl (Exception ''access denied''), w)),
       total_gb = (\<lambda>v. Inl (Exception ''unsupported operand'')),
       GPUtil_getGPUs = (\<lambda>w. (Inl (Exception ''nvidia-smi not found''), w)) \<rparr>"

definition demo_state :: "string list state" where
  "demo_state = init demo_env (all_flags True) [''pylint'']"

definition no_flake8_state :: "string list state" where
  "no_flake8_state = init demo_env ((all_flags True)\<lparr>HAS_FLAKE8 := False, HAS_ISORT := False\<rparr>) []"

text \<open>Two servers: one that lacks deep learning only, one that lacks nothing.\<close>

definition only_deep_learning_missing :: MCPServer where
  "only_deep_learning_missing =
     \<lparr> capabilities = \<lparr> gpu_monitoring = True, quantum_random = True, quantum_computing = True,
         image_processing = True, machine_learning = True, deep_learning = False,
         data_analysis = True, visualization = True, profiling = True, code_quality = True,
         package_management = True \<rparr>,
       session_id = ''0'', start_time = 0 \<rparr>"

definition nothing_missing :: MCPServer where
  "nothing_missing =
     \<lparr> capabilities = \<lparr> gpu_monitoring = True, quantum_random = True, quantum_computing = True,
         image_processing = True, machine_learning = True, deep_learning = True,
         data_analysis = True, visualization = True, profiling = True, code_quality = True,
         package_management = True \<rparr>,
       session_id = ''0'', start_time = 0 \<rparr>"


section \<open>Properties\<close>

subsection \<open>Capability detection\<close>

text \<open>
  Claim C1. The capabilities are a function of the dependency flags alone, and each one is
  the fixed combination of flags of the table: GPU monitoring needs GPUtil and psutil,
  machine learning needs scikit-learn and numpy, data analysis needs pandas and numpy,
  deep learning needs torch or tensorflow, profiling, code quality and package management
  need one of their tools, and the other four follow one flag each. Computing them again
  from the same flags gives the same record, since nothing else enters.
\<close>

theorem detect_capabilities_table:
  "gpu_monitoring (detect_capabilities g) = (HAS_GPUTIL g \<and> HAS_PSUTIL g) \<and>
   quantum_random (detect_capabilities g) = HAS_QUANTUMRANDOM g \<and>
   quantum_computing (detect_capabilities g) = HAS_QISKIT g \<and>
   image_processing (detect_capabilities g) = HAS_OPENCV g \<and>
   machine_learning (detect_capabilities g) = (HAS_SKLEARN g \<and> HAS_NUMPY g) \<and>
   deep_learning (detect_capabilities g) = (HAS_TORCH g \<or> HAS_TENSORFLOW g) \<and>
   data_analysis (detect_capabilities g) = (HAS_PANDAS g \<and> HAS_NUMPY g) \<and>
   visualization (detect_capabilities g) = HAS_MATPLOTLIB g \<and>
   profiling (detect_capabilities g) =
     (HAS_PROFILING g \<or> HAS_MEMORY_PROFILER g \<or> HAS_LINE_PROFILER g) \<and>
   code_quality (detect_capabilities g) =
     (HAS_PYLINT g \<or> HAS_BLACK g \<or> HAS_ISORT g \<or> HAS_FLAKE8 g) \<and>
   package_management (detect_capabilities g) =
     (HAS_POETRY g \<or> HAS_PIPENV g \<or> HAS_PIPDEPTREE g)"
  by (simp add: detect_capabilities_def)


subsection \<open>Recommendations\<close>

lemma recommend_fresh:
  "category \<notin> fst ` set r \<Longrightarrow>
   recommend b category ps r = r @ (if \<not> b then [(category, ps)] else [])"
  by (induction r) (auto simp: recommend_def)

lemma recommend_all_fresh:
  "distinct (map (\<lambda>x. fst (snd x)) t) \<Longrightarrow>
   (\<forall>x \<in> set t. fst (snd x) \<notin> fst ` set r) \<Longrightarrow>
   recommend_all t r = r @ map snd (filter (\<lambda>x. \<not> fst x) t)"
proof (induction t arbitrary: r)
  case Nil
  then show ?case by simp
next
  case (Cons x t)
  obtain b c ps where x: "x = (b, c, ps)" by (cases x)
  from Cons.prems(2) have fresh: "c \<notin> fst ` set r" by (simp add: x)
  from Cons.prems(1) have notin: "\<forall>y \<in> set t. fst (snd y) \<noteq> c" by (auto simp: x)
  have step: "\<forall>y \<in> set t. fst (snd y) \<notin> fst ` set (recommend b c ps r)"
  proof
    fix y assume y: "y \<in> set t"
    with Cons.prems(2) have "fst (snd y) \<notin> fst ` set r" by simp
    moreover from notin y have "fst (snd y) \<noteq> c" by simp
    ultimately show "fst (snd y) \<notin> fst ` set (recommend b c ps r)"
      by (auto simp: recommend_fresh [OF fresh])
  qed
  from Cons.prems(1) have "distinct (map (\<lambda>x. fst (snd x)) t)" by simp
  from Cons.IH [OF this step] show ?case
    by (simp add: x recommend_fresh [OF fresh])
qed

lemma recs_table: "get_missing_packages_recommendations slf = recommend_all (table (capabilities slf)) []"
  by (simp add: get_missing_packages_recommendations_def table_def Let_def)

lemma table_distinct: "distinct (map (\<lambda>x. fst (snd x)) (table c))"
  by (simp add: table_def)

lemma recs_filter:
  "get_missing_packages_recommendations slf = map snd (filter (\<lambda>x. \<not> fst x) (table (capabilities slf)))"
  using recommend_all_fresh [where r = "[]", OF table_distinct]
  by (simp add: recs_table)


lemma recs_set:
  "set (get_missing_packages_recommendations slf) =
     {(c, ps). (False, c, ps) \<in> set (table (capabilities slf))}"
proof -
  have "set (map snd (filter (\<lambda>x. \<not> fst x) t)) = {(c, ps). (False, c, ps) \<in> set t}"
    for t :: "(bool \<times> string \<times> string list) list"
    by (induction t) auto
  then show ?thesis by (simp only: recs_filter)
qed

lemma recs_distinct: "distinct (map fst (get_missing_packages_recommendations slf))"
proof -
  have "distinct (map (\<lambda>x. fst (snd x)) (filter (\<lambda>x. \<not> fst x) (table (capabilities slf))))"
    using table_distinct by (rule distinct_map_filter)
  then show ?thesis by (simp add: recs_filter comp_def)
qed

lemma table_mem:
  "(b, c, ps) \<in> set (table caps) \<longleftrightarrow>
     b = gpu_monitoring caps \<and> c = ''GPU Monitoring'' \<and> ps = [''GPUtil'', ''psutil''] \<or>
     b = quantum_random caps \<and> c = ''Quantum Random'' \<and> ps = [''quantumrandom''] \<or>
     b = quantum_computing caps \<and> c = ''Quantum Computing'' \<and> ps = [''qiskit'', ''qiskit-aer''] \<or>
     b = image_processing caps \<and> c = ''Image Processing'' \<and> ps = [''opencv-python'', ''Pillow''] \<or>
     b = machine_learning caps \<and> c = ''Machine Learning'' \<and> ps = [''scikit-learn'', ''numpy'', ''pandas''] \<or>
     b = deep_learning caps \<and> c = ''Deep Learning'' \<and> ps = [''torch'', ''tensorflow''] \<or>
     b = data_analysis caps \<and> c = ''Data Analysis'' \<and> ps = [''pandas'', ''numpy'', ''scipy''] \<or>
     b = visualization caps \<and> c = ''Visualization'' \<and> ps = [''matplotlib'', ''seaborn'', ''plotly''] \<or>
     b = profiling caps \<and> c = ''Profiling'' \<and> ps = [''memory-profiler'', ''line-profiler'', ''py-spy''] \<or>
     b = code_quality caps \<and> c = ''Code Quality'' \<and> ps = [''pylint'', ''black'', ''isort'', ''flake8'', ''bandit''] \<or>
     b = package_management caps \<and> c = ''Package Management'' \<and> ps = [''poetry'', ''pipenv'', ''pipdeptree'']"
  unfolding table_def by (simp only: list.set insert_iff empty_iff prod.inject simp_thms)

lemma table_nonempty: "(b, c, ps) \<in> set (table caps) \<Longrightarrow> ps \<noteq> []"
  unfolding table_mem by (elim disjE conjE) simp_all

lemma table_suggestions: "map snd (table caps) = map snd (table caps')"
  by (simp add: table_def)

lemma table_fixed:
  assumes "(b, c, ps) \<in> set (table caps)" and "(b', c, ps') \<in> set (table caps')"
  shows "ps' = ps"
proof -
  have d: "distinct (map fst (map snd (table caps)))"
    using table_distinct [of caps] by (simp add: comp_def)
  from assms(1) have 1: "(c, ps) \<in> set (map snd (table caps))" by force
  from assms(2) have "(c, ps') \<in> set (map snd (table caps'))" by force
  then have 2: "(c, ps') \<in> set (map snd (table caps))"
    by (simp only: table_suggestions [of caps' caps])
  from d 1 2 show ?thesis by (rule eq_key_imp_eq_value [symmetric])
qed

lemma recs_keys:
  "c \<in> fst ` set (get_missing_packages_recommendations slf) \<longleftrightarrow>
     (\<exists>ps. (False, c, ps) \<in> set (table (capabilities slf)))"
  unfolding recs_set by force

lemma one_point: "(\<exists>ps. False = b \<and> c = x \<and> ps = l) \<longleftrightarrow> c = x \<and> \<not> b"
  by auto

lemma recs_keys_explicit:
  "c \<in> fst ` set (get_missing_packages_recommendations slf) \<longleftrightarrow>
         c = ''GPU Monitoring'' \<and> \<not> gpu_monitoring (capabilities slf) \<or>
         c = ''Quantum Random'' \<and> \<not> quantum_random (capabilities slf) \<or>
         c = ''Quantum Computing'' \<and> \<not> quantum_computing (capabilities slf) \<or>
         c = ''Image Processing'' \<and> \<not> image_processing (capabilities slf) \<or>
         c = ''Machine Learning'' \<and> \<not> machine_learning (capabilities slf) \<or>
         c = ''Deep Learning'' \<and> \<not> deep_learning (capabilities slf) \<or>
         c = ''Data Analysis'' \<and> \<not> data_analysis (capabilities slf) \<or>
         c = ''Visualization'' \<and> \<not> visualization (capabilities slf) \<or>
         c = ''Profiling'' \<and> \<not> profiling (capabilities slf) \<or>
         c = ''Code Quality'' \<and> \<not> code_quality (capabilities slf) \<or>
         c = ''Package Management'' \<and> \<not> package_management (capabilities slf)"
  unfolding recs_keys table_mem by (simp only: ex_disj_distrib one_point)

lemma recs_all_true:
  "gpu_monitoring (capabilities slf) \<and> quantum_random (capabilities slf) \<and>
    quantum_computing (capabilities slf) \<and> image_processing (capabilities slf) \<and>
    machine_learning (capabilities slf) \<and> deep_learning (capabilities slf) \<and>
    data_analysis (capabilities slf) \<and> visualization (capabilities slf) \<and>
    profiling (capabilities slf) \<and> code_quality (capabilities slf) \<and>
    package_management (capabilities slf) \<Longrightarrow>
      get_missing_packages_recommendations slf = []"
  by (simp add: recs_filter table_def)

text \<open>
  Claim C6. The recommendations are a mapping (no category twice) whose categories are
  exactly those of the capabilities that are false. Each category has a list of packages
  that is not empty and is the same whatever the other capabilities are. When every
  capability is true the mapping is empty. The function is a value of the server's
  capabilities and of nothing else.
\<close>

theorem recommendations_exact:
  "fst ` set (get_missing_packages_recommendations slf) =
     {c. c = ''GPU Monitoring'' \<and> \<not> gpu_monitoring (capabilities slf) \<or>
         c = ''Quantum Random'' \<and> \<not> quantum_random (capabilities slf) \<or>
         c = ''Quantum Computing'' \<and> \<not> quantum_computing (capabilities slf) \<or>
         c = ''Image Processing'' \<and> \<not> image_processing (capabilities slf) \<or>
         c = ''Machine Learning'' \<and> \<not> machine_learning (capabilities slf) \<or>
         c = ''Deep Learning'' \<and> \<not> deep_learning (capabilities slf) \<or>
         c = ''Data Analysis'' \<and> \<not> data_analysis (capabilities slf) \<or>
         c = ''Visualization'' \<and> \<not> visualization (capabilities slf) \<or>
         c = ''Profiling'' \<and> \<not> profiling (capabilities slf) \<or>
         c = ''Code Quality'' \<and> \<not> code_quality (capabilities slf) \<or>
         c = ''Package Management'' \<and> \<not> package_management (capabilities slf)} \<and>
   distinct (map fst (get_missing_packages_recommendations slf)) \<and>
   (\<forall>c ps. (c, ps) \<in> set (get_missing_packages_recommendations slf) \<longrightarrow>
      ps \<noteq> [] \<and>
      (\<forall>slf' ps'. (c, ps') \<in> set (get_missing_packages_recommendations slf') \<longrightarrow> ps' = ps)) \<and>
   (gpu_monitoring (capabilities slf) \<and> quantum_random (capabilities slf) \<and>
    quantum_computing (capabilities slf) \<and> image_processing (capabilities slf) \<and>
    machine_learning (capabilities slf) \<and> deep_learning (capabilities slf) \<and>
    data_analysis (capabilities slf) \<and> visualization (capabilities slf) \<and>
    profiling (capabilities slf) \<and> code_quality (capabilities slf) \<and>
    package_management (capabilities slf) \<longrightarrow>
      get_missing_packages_recommendations slf = []) \<and>
   (\<forall>slf'. capabilities slf' = capabilities slf \<longrightarrow>
      get_missing_packages_recommendations slf' = get_missing_packages_recommendations slf)"
proof (intro conjI allI impI)
  show "fst ` set (get_missing_packages_recommendations slf) =
     {c. c = ''GPU Monitoring'' \<and> \<not> gpu_monitoring (capabilities slf) \<or>
         c = ''Quantum Random'' \<and> \<not> quantum_random (capabilities slf) \<or>
         c = ''Quantum Computing'' \<and> \<not> quantum_computing (capabilities slf) \<or>
         c = ''Image Processing'' \<and> \<not> image_processing (capabilities slf) \<or>
         c = ''Machine Learning'' \<and> \<not> machine_learning (capabilities slf) \<or>
         c = ''Deep Learning'' \<and> \<not> deep_learning (capabilities slf) \<or>
         c = ''Data Analysis'' \<and> \<not> data_analysis (capabilities slf) \<or>
         c = ''Visualization'' \<and> \<not> visualization (capabilities slf) \<or>
         c = ''Profiling'' \<and> \<not> profiling (capabilities slf) \<or>
         c = ''Code Quality'' \<and> \<not> code_quality (capabilities slf) \<or>
         c = ''Package Management'' \<and> \<not> package_management (capabilities slf)}"
    by (rule set_eqI) (simp only: mem_Collect_eq recs_keys_explicit)
  show "distinct (map fst (get_missing_packages_recommendations slf))"
    by (rule recs_distinct)
next
  fix c ps assume "(c, ps) \<in> set (get_missing_packages_recommendations slf)"
  then have "(False, c, ps) \<in> set (table (capabilities slf))" by (simp add: recs_set)
  then show "ps \<noteq> []" by (rule table_nonempty)
next
  fix c ps slf' ps'
  assume "(c, ps) \<in> set (get_missing_packages_recommendations slf)"
    and "(c, ps') \<in> set (get_missing_packages_recommendations slf')"
  then have "(False, c, ps) \<in> set (table (capabilities slf))"
    and "(False, c, ps') \<in> set (table (capabilities slf'))" by (simp_all add: recs_set)
  then show "ps' = ps" by (rule table_fixed)
next
  assume "gpu_monitoring (capabilities slf) \<and> quantum_random (capabilities slf) \<and>
    quantum_computing (capabilities slf) \<and> image_processing (capabilities slf) \<and>
    machine_learning (capabilities slf) \<and> deep_learning (capabilities slf) \<and>
    data_analysis (capabilities slf) \<and> visualization (capabilities slf) \<and>
    profiling (capabilities slf) \<and> code_quality (capabilities slf) \<and>
    package_management (capabilities slf)"
  then show "get_missing_packages_recommendations slf = []" by (rule recs_all_true)
next
  fix slf' :: MCPServer
  assume "capabilities slf' = capabilities slf"
  then show "get_missing_packages_recommendations slf' = get_missing_packages_recommendations slf"
    by (simp add: recs_filter)
qed

lemma recs_only_deep_learning:
  "get_missing_packages_recommendations only_deep_learning_missing =
     [(''Deep Learning'', [''torch'', ''tensorflow''])]"
  by (simp add: recs_filter table_def only_deep_learning_missing_def)

theorem recommendations_exact_witness:
  "(''Deep Learning'', [''torch'', ''tensorflow''])
     \<in> set (get_missing_packages_recommendations only_deep_learning_missing) \<and>
   [''torch'', ''tensorflow''] \<noteq> ([] :: string list) \<and>
   fst ` set (get_missing_packages_recommendations only_deep_learning_missing) = {''Deep Learning''} \<and>
   get_missing_packages_recommendations nothing_missing = []"
proof -
  have mem: "(''Deep Learning'', [''torch'', ''tensorflow''])
     \<in> set (get_missing_packages_recommendations only_deep_learning_missing)"
    by (simp add: recs_only_deep_learning)
  note t = recommendations_exact [of only_deep_learning_missing]
  note keys_of = t [THEN conjunct1]
  note lists = t [THEN conjunct2, THEN conjunct2, THEN conjunct1]
  from lists mem have ne: "[''torch'', ''tensorflow''] \<noteq> ([] :: string list)" by blast
  from keys_of
  have "fst ` set (get_missing_packages_recommendations only_deep_learning_missing) =
     {c. c = ''Deep Learning''}"
    by (simp add: only_deep_learning_missing_def)
  then have ks: "fst ` set (get_missing_packages_recommendations only_deep_learning_missing) = {''Deep Learning''}"
    by (simp add: singleton_conv)
  note all_true = recommendations_exact [of nothing_missing, THEN conjunct2, THEN conjunct2,
      THEN conjunct2, THEN conjunct1]
  have "get_missing_packages_recommendations nothing_missing = []"
    by (rule all_true [THEN mp]) (simp add: nothing_missing_def)
  with mem ne ks show ?thesis by (intro conjI)
qed


subsection \<open>Running the tools\<close>

lemmas io_defs = return_io_def raise_io_def bind_io_def try_except_def get_global_def
  get_self_def read_world_def call_def lift_def

lemma run_tool_result:
  "run_tool env results sec tool argv s =
     (Inr (setitem2 results sec tool (tool_entry env (fst (subprocess_exec env argv (world s))))),
      s\<lparr>world := snd (subprocess_exec env argv (world s)), spawned := spawned s @ [argv]\<rparr>)"
  by (simp add: run_tool_def tool_entry_def io_defs create_subprocess_exec_def
      split: prod.splits sum.splits)

lemma run_code_quality_check_missing:
  "\<not> os_path_exists env (world s) path \<Longrightarrow>
   run_code_quality_check env path s =
     (Inr (PyDict [(''file'', PyStr path), (''checks'', PyDict []),
                   (''error'', PyStr ''File not found'')]), s)"
  by (simp add: run_code_quality_check_def io_defs)

lemma format_code_missing:
  "\<not> os_path_exists env (world s) path \<Longrightarrow>
   format_code env path s =
     (Inr (PyDict [(''file'', PyStr path), (''formatters'', PyDict []),
                   (''error'', PyStr ''File not found'')]), s)"
  by (simp add: format_code_def io_defs)

lemma run_code_quality_check_exists:
  assumes "os_path_exists env (world s) path"
  shows "run_code_quality_check env path s =
    (let g = py_globals s;
         w0 = world s;
         r1 = subprocess_exec env [''pylint'', path] w0;
         w1 = (if HAS_PYLINT g then snd r1 else w0);
         r2 = subprocess_exec env [''flake8'', path] w1;
         w2 = (if HAS_FLAKE8 g then snd r2 else w1);
         r3 = subprocess_exec env [''bandit'', ''-f'', ''json'', path] w2;
         w3 = (if HAS_BANDIT g then snd r3 else w2)
     in (Inr (PyDict
           [ (''file'', PyStr path),
             (''checks'', PyDict
                ((if HAS_PYLINT g then [(''pylint'', tool_entry env (fst r1))] else []) @
                 (if HAS_FLAKE8 g then [(''flake8'', tool_entry env (fst r2))] else []) @
                 (if HAS_BANDIT g then [(''bandit'', tool_entry env (fst r3))] else []))) ]),
         s\<lparr>world := w3,
           spawned := spawned s @
             (if HAS_PYLINT g then [[''pylint'', path]] else []) @
             (if HAS_FLAKE8 g then [[''flake8'', path]] else []) @
             (if HAS_BANDIT g then [[''bandit'', ''-f'', ''json'', path]] else [])\<rparr>))"
proof -
  show ?thesis
    using assms
    by (cases "HAS_PYLINT (py_globals s)"; cases "HAS_FLAKE8 (py_globals s)";
        cases "HAS_BANDIT (py_globals s)")
       (simp_all add: run_code_quality_check_def run_tool_result Let_def
          return_io_def bind_io_def get_global_def read_world_def)
qed

lemma format_code_exists:
  assumes "os_path_exists env (world s) path"
  shows "format_code env path s =
    (let g = py_globals s;
         w0 = world s;
         r1 = subprocess_exec env [''black'', ''--check'', ''--diff'', path] w0;
         w1 = (if HAS_BLACK g then snd r1 else w0);
         r2 = subprocess_exec env [''isort'', ''--check-only'', ''--diff'', path] w1;
         w2 = (if HAS_ISORT g then snd r2 else w1)
     in (Inr (PyDict
           [ (''file'', PyStr path),
             (''formatters'', PyDict
                ((if HAS_BLACK g then [(''black'', tool_entry env (fst r1))] else []) @
                 (if HAS_ISORT g then [(''isort'', tool_entry env (fst r2))] else []))) ]),
         s\<lparr>world := w2,
           spawned := spawned s @
             (if HAS_BLACK g then [[''black'', ''--check'', ''--diff'', path]] else []) @
             (if HAS_ISORT g then [[''isort'', ''--check-only'', ''--diff'', path]] else [])\<rparr>))"
  using assms
  by (cases "HAS_BLACK (py_globals s)"; cases "HAS_ISORT (py_globals s)")
     (simp_all add: format_code_def run_tool_result Let_def
        return_io_def bind_io_def get_global_def read_world_def)

lemma demo_state_simps:
  "world demo_state = [''pylint'']" "spawned demo_state = []"
  "py_globals demo_state = all_flags True"
  by (simp_all add: demo_state_def init_def demo_env_def Let_def)

lemma no_flake8_flags:
  "\<not> HAS_FLAKE8 (py_globals no_flake8_state)" "\<not> HAS_ISORT (py_globals no_flake8_state)"
  "HAS_PYLINT (py_globals no_flake8_state)" "HAS_BANDIT (py_globals no_flake8_state)"
  "HAS_BLACK (py_globals no_flake8_state)"
  by (simp_all add: no_flake8_state_def init_def all_flags_def Let_def split: prod.splits)

text \<open>
  Claim C2, as stated: for a path that does not exist \<^verbatim>\<open>run_code_quality_check\<close> returns
  exactly the mapping of \<^verbatim>\<open>"file"\<close> and \<^verbatim>\<open>"error"\<close>. It does not: the result is a
  dictionary of three keys, the third being \<^verbatim>\<open>"checks"\<close> with the empty dictionary,
  which the claimed mapping does not have.
\<close>

theorem file_not_found_counterexample:
  "\<not> os_path_exists demo_env (world demo_state) ''missing.py'' \<and>
   fst (run_code_quality_check demo_env ''missing.py'' demo_state) =
     Inr (PyDict [(''file'', PyStr ''missing.py''), (''checks'', PyDict []),
                  (''error'', PyStr ''File not found'')]) \<and>
   fst (run_code_quality_check demo_env ''missing.py'' demo_state) \<noteq>
     Inr (PyDict [(''file'', PyStr ''missing.py''), (''error'', PyStr ''File not found'')]) \<and>
   getitem (PyDict [(''file'', PyStr ''missing.py''), (''checks'', PyDict []),
                    (''error'', PyStr ''File not found'')]) ''checks'' = Some (PyDict []) \<and>
   getitem (PyDict [(''file'', PyStr ''missing.py''), (''error'', PyStr ''File not found'')])
     ''checks'' = None"
  by (simp add: run_code_quality_check_def io_defs demo_env_def)

text \<open>
  Claim C2, amended: for a path that does not exist, and whatever the flags are,
  \<^verbatim>\<open>run_code_quality_check\<close> returns the dictionary with \<^verbatim>\<open>"file"\<close> the path,
  \<^verbatim>\<open>"checks"\<close> the empty dictionary and \<^verbatim>\<open>"error"\<close> the text \<^verbatim>\<open>File not found\<close>, and
  starts no child process: the state, with its log of launches, is the one before.
\<close>

theorem file_not_found_result:
  assumes "\<not> os_path_exists env (world s) path"
  shows "fst (run_code_quality_check env path s) =
           Inr (PyDict [(''file'', PyStr path), (''checks'', PyDict []),
                        (''error'', PyStr ''File not found'')]) \<and>
         spawned (snd (run_code_quality_check env path s)) = spawned s \<and>
         snd (run_code_quality_check env path s) = s"
  using assms by (simp add: run_code_quality_check_missing)

theorem file_not_found_result_witness:
  "\<not> os_path_exists demo_env (world demo_state) ''missing.py'' \<and>
   HAS_PYLINT (py_globals demo_state) \<and>
   fst (run_code_quality_check demo_env ''missing.py'' demo_state) =
     Inr (PyDict [(''file'', PyStr ''missing.py''), (''checks'', PyDict []),
                  (''error'', PyStr ''File not found'')]) \<and>
   spawned (snd (run_code_quality_check demo_env ''missing.py'' demo_state)) = []"
proof -
  have h: "\<not> os_path_exists demo_env (world demo_state) ''missing.py''"
    by (simp add: demo_env_def)
  have f: "HAS_PYLINT (py_globals demo_state)"
    by (simp add: demo_state_def init_def all_flags_def Let_def split: prod.splits)
  have e: "spawned demo_state = []"
    by (simp add: demo_state_def init_def Let_def split: prod.splits)
  from file_not_found_result [OF h] e h f show ?thesis by simp
qed

text \<open>
  Claim C10. Whatever the path, the result of \<^verbatim>\<open>run_code_quality_check\<close> has the path
  under \<^verbatim>\<open>"file"\<close> and a dictionary under \<^verbatim>\<open>"checks"\<close>, and the result of
  \<^verbatim>\<open>format_code\<close> has the path under \<^verbatim>\<open>"file"\<close> and a dictionary under
  \<^verbatim>\<open>"formatters"\<close>. For a path that does not exist that dictionary is empty and stands
  beside \<^verbatim>\<open>"error"\<close> with the text \<^verbatim>\<open>File not found\<close>.
\<close>

theorem results_always_structured:
  "(\<exists>r s' checks. run_code_quality_check env path s = (Inr r, s') \<and>
      getitem r ''file'' = Some (PyStr path) \<and>
      getitem r ''checks'' = Some (PyDict checks) \<and>
      (\<not> os_path_exists env (world s) path \<longrightarrow>
         checks = [] \<and> getitem r ''error'' = Some (PyStr ''File not found''))) \<and>
   (\<exists>r s' formatters. format_code env path s = (Inr r, s') \<and>
      getitem r ''file'' = Some (PyStr path) \<and>
      getitem r ''formatters'' = Some (PyDict formatters) \<and>
      (\<not> os_path_exists env (world s) path \<longrightarrow>
         formatters = [] \<and> getitem r ''error'' = Some (PyStr ''File not found'')))"
proof (cases "os_path_exists env (world s) path")
  case True
  then show ?thesis
    by (simp add: run_code_quality_check_exists format_code_exists Let_def)
next
  case False
  then show ?thesis
    by (simp add: run_code_quality_check_missing format_code_missing)
qed

theorem results_always_structured_witness:
  "\<not> os_path_exists demo_env (world demo_state) ''missing.py'' \<and>
   (\<exists>r s'. run_code_quality_check demo_env ''missing.py'' demo_state = (Inr r, s') \<and>
      getitem r ''file'' = Some (PyStr ''missing.py'') \<and>
      getitem r ''checks'' = Some (PyDict []) \<and>
      getitem r ''error'' = Some (PyStr ''File not found'')) \<and>
   (\<exists>r s'. format_code demo_env ''missing.py'' demo_state = (Inr r, s') \<and>
      getitem r ''file'' = Some (PyStr ''missing.py'') \<and>
      getitem r ''formatters'' = Some (PyDict []) \<and>
      getitem r ''error'' = Some (PyStr ''File not found''))"
proof -
  have h: "\<not> os_path_exists demo_env (world demo_state) ''missing.py''"
    by (simp add: demo_env_def)
  from results_always_structured [of demo_env "''missing.py''" demo_state] h
  show ?thesis by blast
qed

text \<open>
  Claim C5. In the result of \<^verbatim>\<open>run_code_quality_check\<close> and of \<^verbatim>\<open>format_code\<close>, a tool
  whose flag is false has no key, neither among the checks (or formatters) nor in the
  result itself: the tool is left out, not listed as skipped.
\<close>

theorem absent_tools_have_no_key:
  "(\<exists>r s' checks. run_code_quality_check env path s = (Inr r, s') \<and>
      getitem r ''checks'' = Some checks \<and>
      (\<not> HAS_PYLINT (py_globals s) \<longrightarrow>
         getitem checks ''pylint'' = None \<and> getitem r ''pylint'' = None) \<and>
      (\<not> HAS_FLAKE8 (py_globals s) \<longrightarrow>
         getitem checks ''flake8'' = None \<and> getitem r ''flake8'' = None) \<and>
      (\<not> HAS_BANDIT (py_globals s) \<longrightarrow>
         getitem checks ''bandit'' = None \<and> getitem r ''bandit'' = None)) \<and>
   (\<exists>r s' formatters. format_code env path s = (Inr r, s') \<and>
      getitem r ''formatters'' = Some formatters \<and>
      (\<not> HAS_BLACK (py_globals s) \<longrightarrow>
         getitem formatters ''black'' = None \<and> getitem r ''black'' = None) \<and>
      (\<not> HAS_ISORT (py_globals s) \<longrightarrow>
         getitem formatters ''isort'' = None \<and> getitem r ''isort'' = None))"
proof (cases "os_path_exists env (world s) path")
  case True
  then show ?thesis
    by (simp add: run_code_quality_check_exists format_code_exists Let_def)
next
  case False
  then show ?thesis
    by (simp add: run_code_quality_check_missing format_code_missing)
qed

theorem absent_tools_have_no_key_witness:
  "\<not> HAS_FLAKE8 (py_globals no_flake8_state) \<and> \<not> HAS_ISORT (py_globals no_flake8_state) \<and>
   (\<exists>r s' checks. run_code_quality_check demo_env ''app.py'' no_flake8_state = (Inr r, s') \<and>
      getitem r ''checks'' = Some checks \<and>
      getitem checks ''flake8'' = None \<and> getitem r ''flake8'' = None) \<and>
   (\<exists>r s' formatters. format_code demo_env ''app.py'' no_flake8_state = (Inr r, s') \<and>
      getitem r ''formatters'' = Some formatters \<and>
      getitem formatters ''isort'' = None \<and> getitem r ''isort'' = None)"
proof -
  note t = absent_tools_have_no_key [of demo_env "''app.py''" no_flake8_state]
  from t no_flake8_flags(1)
  have 1: "\<exists>r s' checks. run_code_quality_check demo_env ''app.py'' no_flake8_state = (Inr r, s') \<and>
      getitem r ''checks'' = Some checks \<and>
      getitem checks ''flake8'' = None \<and> getitem r ''flake8'' = None"
    by blast
  from t no_flake8_flags(2)
  have 2: "\<exists>r s' formatters. format_code demo_env ''app.py'' no_flake8_state = (Inr r, s') \<and>
      getitem r ''formatters'' = Some formatters \<and>
      getitem formatters ''isort'' = None \<and> getitem r ''isort'' = None"
    by blast
  from 1 2 no_flake8_flags(1,2) show ?thesis by blast
qed

text \<open>
  Claim C8. For a file that exists, \<^verbatim>\<open>run_code_quality_check\<close> and \<^verbatim>\<open>format_code\<close>
  always return a result, never an exception. Every tool whose flag is true is launched,
  once and in the order of the source, whatever happened to the tools before it, and has
  one entry under its own name. The entry of a tool depends on the outcome of its own
  launch only: a launch that raises leaves the text of the exception under \<^verbatim>\<open>"error"\<close>,
  a process whose output decodes leaves its exit code and the two texts.
\<close>

theorem tool_failures_isolated:
  assumes "os_path_exists env (world s) path"
  shows
   "(let g = py_globals s;
         w0 = world s;
         r1 = subprocess_exec env [''pylint'', path] w0;
         w1 = (if HAS_PYLINT g then snd r1 else w0);
         r2 = subprocess_exec env [''flake8'', path] w1;
         w2 = (if HAS_FLAKE8 g then snd r2 else w1);
         r3 = subprocess_exec env [''bandit'', ''-f'', ''json'', path] w2
     in \<exists>checks s'.
          run_code_quality_check env path s =
            (Inr (PyDict [(''file'', PyStr path), (''checks'', PyDict checks)]), s') \<and>
          spawned s' = spawned s @
             (if HAS_PYLINT g then [[''pylint'', path]] else []) @
             (if HAS_FLAKE8 g then [[''flake8'', path]] else []) @
             (if HAS_BANDIT g then [[''bandit'', ''-f'', ''json'', path]] else []) \<and>
          map fst checks =
             (if HAS_PYLINT g then [''pylint''] else []) @
             (if HAS_FLAKE8 g then [''flake8''] else []) @
             (if HAS_BANDIT g then [''bandit''] else []) \<and>
          (HAS_PYLINT g \<longrightarrow> map_of checks ''pylint'' = Some (tool_entry env (fst r1))) \<and>
          (HAS_FLAKE8 g \<longrightarrow> map_of checks ''flake8'' = Some (tool_entry env (fst r2))) \<and>
          (HAS_BANDIT g \<longrightarrow> map_of checks ''bandit'' = Some (tool_entry env (fst r3)))) \<and>
    (let g = py_globals s;
         w0 = world s;
         r1 = subprocess_exec env [''black'', ''--check'', ''--diff'', path] w0;
         w1 = (if HAS_BLACK g then snd r1 else w0);
         r2 = subprocess_exec env [''isort'', ''--check-only'', ''--diff'', path] w1
     in \<exists>formatters s'.
          format_code env path s =
            (Inr (PyDict [(''file'', PyStr path), (''formatters'', PyDict formatters)]), s') \<and>
          spawned s' = spawned s @
             (if HAS_BLACK g then [[''black'', ''--check'', ''--diff'', path]] else []) @
             (if HAS_ISORT g then [[''isort'', ''--check-only'', ''--diff'', path]] else []) \<and>
          map fst formatters =
             (if HAS_BLACK g then [''black''] else []) @
             (if HAS_ISORT g then [''isort''] else []) \<and>
          (HAS_BLACK g \<longrightarrow> map_of formatters ''black'' = Some (tool_entry env (fst r1))) \<and>
          (HAS_ISORT g \<longrightarrow> map_of formatters ''isort'' = Some (tool_entry env (fst r2)))) \<and>
    (\<forall>e. tool_entry env (Inl e) = PyDict [(''error'', PyStr (str e))]) \<and>
    (\<forall>process out err.
        decode env (stdout process) = Inr out \<and> decode env (stderr process) = Inr err \<longrightarrow>
        tool_entry env (Inr process) = PyDict
          [ (''exit_code'', PyInt (returncode process)),
            (''output'', PyStr out),
            (''errors'', PyStr err) ])"
  using assms
  by (simp add: run_code_quality_check_exists format_code_exists Let_def tool_entry_def)

theorem tool_failures_isolated_witness:
  "os_path_exists demo_env (world demo_state) ''app.py'' \<and>
   fst (subprocess_exec demo_env [''flake8'', ''app.py''] (world demo_state)) =
     Inl (Exception ''No such file or directory'') \<and>
   (\<exists>checks s'.
      run_code_quality_check demo_env ''app.py'' demo_state =
        (Inr (PyDict [(''file'', PyStr ''app.py''), (''checks'', PyDict checks)]), s') \<and>
      spawned s' =
        [[''pylint'', ''app.py''], [''flake8'', ''app.py''], [''bandit'', ''-f'', ''json'', ''app.py'']] \<and>
      map fst checks = [''pylint'', ''flake8'', ''bandit''] \<and>
      map_of checks ''flake8'' = Some (PyDict [(''error'', PyStr ''No such file or directory'')]) \<and>
      map_of checks ''bandit'' = Some (PyDict
        [(''exit_code'', PyInt 0), (''output'', PyStr []), (''errors'', PyStr [])]))"
proof -
  have h: "os_path_exists demo_env (world demo_state) ''app.py''"
    by (simp add: demo_env_def)
  have x: "subprocess_exec demo_env = demo_exec" "decode demo_env = demo_decode"
    by (simp_all add: demo_env_def)
  have f: "HAS_PYLINT (all_flags True)" "HAS_FLAKE8 (all_flags True)" "HAS_BANDIT (all_flags True)"
    by (simp_all add: all_flags_def)
  have l: "fst (subprocess_exec demo_env [''flake8'', ''app.py''] (world demo_state)) =
     Inl (Exception ''No such file or directory'')"
    by (simp add: x demo_exec_def)
  from tool_failures_isolated [OF h]
  have "\<exists>checks s'.
      run_code_quality_check demo_env ''app.py'' demo_state =
        (Inr (PyDict [(''file'', PyStr ''app.py''), (''checks'', PyDict checks)]), s') \<and>
      spawned s' =
        [[''pylint'', ''app.py''], [''flake8'', ''app.py''], [''bandit'', ''-f'', ''json'', ''app.py'']] \<and>
      map fst checks = [''pylint'', ''flake8'', ''bandit''] \<and>
      map_of checks ''flake8'' = Some (PyDict [(''error'', PyStr ''No such file or directory'')]) \<and>
      map_of checks ''bandit'' = Some (PyDict
        [(''exit_code'', PyInt 0), (''output'', PyStr []), (''errors'', PyStr [])])"
    by (simp add: Let_def demo_state_simps x f demo_exec_def demo_decode_def tool_entry_def)
       (elim conjE exE, intro exI conjI, assumption+)
  with h l show ?thesis by blast
qed

subsection \<open>Installing packages\<close>

lemma install_package_found:
  "metadata_version env (world s) p = Some v \<Longrightarrow>
   install_package env p results s =
     (Inr (setitem results p (PyStr ''already_installed'')), s)"
  by (simp add: install_package_def version_def io_defs)

lemma install_package_launch:
  "metadata_version env (world s) p = None \<Longrightarrow>
   install_package env p results s =
     (Inr (setitem results p
        (PyStr (install_outcome env (fst (subprocess_exec env (pip_install env p) (world s)))))),
      s\<lparr>world := snd (subprocess_exec env (pip_install env p) (world s)),
        spawned := spawned s @ [pip_install env p]\<rparr>)"
  by (simp add: install_package_def version_def io_defs create_subprocess_exec_def
      install_outcome_def pip_install_def split: prod.splits sum.splits)

lemma install_package_total:
  "\<exists>v s'. install_package env p (PyDict kvs) s = (Inr (PyDict (AList.update p (PyStr v) kvs)), s') \<and>
     py_globals s' = py_globals s \<and> self s' = self s"
proof (cases "metadata_version env (world s) p")
  case None
  then show ?thesis by (simp add: install_package_launch) blast
next
  case (Some v)
  then show ?thesis by (simp add: install_package_found) blast
qed

lemma install_loop_total:
  "\<exists>kvs' s'. install_loop env ps (PyDict kvs) s = (Inr (PyDict kvs'), s') \<and>
     set (map fst kvs') = set (map fst kvs) \<union> set ps \<and>
     py_globals s' = py_globals s \<and> self s' = self s"
proof (induction ps arbitrary: kvs s)
  case Nil
  then show ?case by (simp add: return_io_def)
next
  case (Cons p ps)
  from install_package_total [of env p kvs s] obtain v s1 where
    1: "install_package env p (PyDict kvs) s = (Inr (PyDict (AList.update p (PyStr v) kvs)), s1)"
    and f1: "py_globals s1 = py_globals s" "self s1 = self s" by blast
  from Cons.IH [of "AList.update p (PyStr v) kvs" s1] obtain kvs' s' where
    2: "install_loop env ps (PyDict (AList.update p (PyStr v) kvs)) s1 = (Inr (PyDict kvs'), s')"
    and k: "set (map fst kvs') = set (map fst (AList.update p (PyStr v) kvs)) \<union> set ps"
    and f2: "py_globals s' = py_globals s1" "self s' = self s1" by blast
  have "install_loop env (p # ps) (PyDict kvs) s = (Inr (PyDict kvs'), s')"
    by (simp add: bind_io_def 1 2)
  moreover have "set (map fst kvs') = set (map fst kvs) \<union> set (p # ps)"
    using k by (auto simp: dom_update)
  ultimately show ?case using f1 f2 by simp
qed

lemma install_loop_append:
  "install_loop env (ps @ qs) r s =
     (case install_loop env ps r s of
        (Inl e, s') \<Rightarrow> (Inl e, s')
      | (Inr r', s') \<Rightarrow> install_loop env qs r' s')"
proof (induction ps arbitrary: r s)
  case Nil
  then show ?case by (simp add: return_io_def)
next
  case (Cons p ps)
  then show ?case by (simp add: bind_io_def split: prod.splits sum.splits)
qed


lemma install_snoc:
  assumes "install_missing_packages env ps s = (Inr r1, s1)"
  shows "install_missing_packages env (ps @ p # qs) s =
           (case install_package env p r1 s1 of
              (Inl e, s') \<Rightarrow> (Inl e, s')
            | (Inr r', s') \<Rightarrow> install_loop env qs r' s')"
  using assms by (simp add: install_missing_packages_def install_loop_append bind_io_def)

lemma demo_env_simps:
  "sys_executable demo_env = ''python3''"
  "subprocess_exec demo_env = demo_exec"
  "decode demo_env = demo_decode"
  "metadata_version demo_env w name = (if name \<in> set w then Some ''1.0'' else None)"
  by (simp_all add: demo_env_def)





text \<open>
  Claim C7. \<^verbatim>\<open>install_missing_packages\<close> always returns a dictionary, never an
  exception; its keys are exactly the requested names, so every name is processed; the
  empty list gives the empty dictionary. When the launch for a name \<open>p\<close> raises, the
  outcome of \<open>p\<close> is \<^verbatim>\<open>error: \<close> followed by the text of the exception, the entries
  made before are kept, and the loop goes on with the names after \<open>p\<close>.
\<close>

theorem install_never_short_circuits:
  "install_missing_packages env [] s = (Inr (PyDict []), s) \<and>
   (\<exists>kvs s'. install_missing_packages env packages s = (Inr (PyDict kvs), s') \<and>
      set (map fst kvs) = set packages) \<and>
   (\<forall>r1 s1 e w'.
      install_missing_packages env ps s = (Inr r1, s1) \<and>
      metadata_version env (world s1) p = None \<and>
      subprocess_exec env [sys_executable env, ''-m'', ''pip'', ''install'', p] (world s1)
        = (Inl e, w') \<longrightarrow>
      install_missing_packages env (ps @ p # qs) s =
        install_loop env qs (setitem r1 p (PyStr (''error: '' @ str e)))
          (s1\<lparr>world := w',
              spawned := spawned s1 @ [[sys_executable env, ''-m'', ''pip'', ''install'', p]]\<rparr>))"
proof (intro conjI allI impI)
  show "install_missing_packages env [] s = (Inr (PyDict []), s)"
    by (simp add: install_missing_packages_def return_io_def)
  show "\<exists>kvs s'. install_missing_packages env packages s = (Inr (PyDict kvs), s') \<and>
      set (map fst kvs) = set packages"
    using install_loop_total [of env packages "[]" s]
    by (auto simp: install_missing_packages_def)
next
  fix r1 s1 e w'
  assume a: "install_missing_packages env ps s = (Inr r1, s1) \<and>
      metadata_version env (world s1) p = None \<and>
      subprocess_exec env [sys_executable env, ''-m'', ''pip'', ''install'', p] (world s1)
        = (Inl e, w')"
  then have 1: "install_missing_packages env ps s = (Inr r1, s1)"
    and n: "metadata_version env (world s1) p = None"
    and l: "subprocess_exec env (pip_install env p) (world s1) = (Inl e, w')"
    by (simp_all add: pip_install_def)
  show "install_missing_packages env (ps @ p # qs) s =
        install_loop env qs (setitem r1 p (PyStr (''error: '' @ str e)))
          (s1\<lparr>world := w',
              spawned := spawned s1 @ [[sys_executable env, ''-m'', ''pip'', ''install'', p]]\<rparr>)"
    using l by (simp add: install_snoc [OF 1] install_package_launch [OF n] install_outcome_def
        pip_install_def)
qed

theorem install_never_short_circuits_witness:
  "install_missing_packages demo_env [] demo_state = (Inr (PyDict []), demo_state) \<and>
   metadata_version demo_env (world demo_state) ''nolaunch'' = None \<and>
   subprocess_exec demo_env [sys_executable demo_env, ''-m'', ''pip'', ''install'', ''nolaunch'']
       (world demo_state)
     = (Inl (Exception ''No such file or directory''), [''pylint'']) \<and>
   install_missing_packages demo_env [''nolaunch'', ''requests''] demo_state =
     (Inr (PyDict [(''nolaunch'', PyStr ''error: No such file or directory''),
                   (''requests'', PyStr ''installed'')]),
      demo_state\<lparr>world := [''requests'', ''pylint''],
        spawned := [[''python3'', ''-m'', ''pip'', ''install'', ''nolaunch''],
                    [''python3'', ''-m'', ''pip'', ''install'', ''requests'']]\<rparr>)"
proof -
  note t = install_never_short_circuits
    [where env = demo_env and s = demo_state and ps = "[]" and p = "''nolaunch''"
       and qs = "[''requests'']"]
  have e: "install_missing_packages demo_env [] demo_state = (Inr (PyDict []), demo_state)"
    by (rule t [THEN conjunct1])
  have n: "metadata_version demo_env (world demo_state) ''nolaunch'' = None"
    by (simp add: demo_env_simps demo_state_simps)
  have l: "subprocess_exec demo_env [sys_executable demo_env, ''-m'', ''pip'', ''install'', ''nolaunch'']
       (world demo_state) = (Inl (Exception ''No such file or directory''), [''pylint''])"
    by (simp add: demo_env_simps demo_state_simps demo_exec_def)
  from e n l have h: "install_missing_packages demo_env [] demo_state = (Inr (PyDict []), demo_state) \<and>
      metadata_version demo_env (world demo_state) ''nolaunch'' = None \<and>
      subprocess_exec demo_env [sys_executable demo_env, ''-m'', ''pip'', ''install'', ''nolaunch'']
        (world demo_state) = (Inl (Exception ''No such file or directory''), [''pylint''])"
    by (intro conjI)
  note c = t [THEN conjunct2, THEN conjunct2, THEN spec, THEN spec, THEN spec, THEN spec,
      THEN mp, OF h]
  have r: "install_missing_packages demo_env [''nolaunch'', ''requests''] demo_state =
     (Inr (PyDict [(''nolaunch'', PyStr ''error: No such file or directory''),
                   (''requests'', PyStr ''installed'')]),
      demo_state\<lparr>world := [''requests'', ''pylint''],
        spawned := [[''python3'', ''-m'', ''pip'', ''install'', ''nolaunch''],
                    [''python3'', ''-m'', ''pip'', ''install'', ''requests'']]\<rparr>)"
    using c
    by (simp add: bind_io_def return_io_def install_package_launch demo_env_simps
        demo_state_simps pip_install_def demo_exec_def install_outcome_def)
  from e n l r show ?thesis by (intro conjI)
qed

subsection \<open>System information\<close>






lemma world_onlyI: "(\<And>s. \<exists>r w'. m s = (r, s\<lparr>world := w'\<rparr>)) \<Longrightarrow> world_only m"
  by (simp add: world_only_def)

lemma world_onlyD: "world_only m \<Longrightarrow> \<exists>r w'. m s = (r, s\<lparr>world := w'\<rparr>)"
  by (simp add: world_only_def)

lemma same_world: "\<exists>w'. (s :: 'w state) = s\<lparr>world := w'\<rparr>"
  by (rule exI [of _ "world s"]) simp

lemma world_only_return: "world_only (return_io x)"
  by (rule world_onlyI) (simp add: return_io_def same_world)

lemma world_only_raise: "world_only (raise_io e)"
  by (rule world_onlyI) (simp add: raise_io_def same_world)

lemma world_only_lift: "world_only (lift r)"
  by (rule world_onlyI) (simp add: lift_def same_world)

lemma world_only_get_self: "world_only (get_self f)"
  by (rule world_onlyI) (simp add: get_self_def same_world)

lemma world_only_get_global: "world_only (get_global f)"
  by (rule world_onlyI) (simp add: get_global_def same_world)

lemma world_only_read_world: "world_only (read_world f)"
  by (rule world_onlyI) (simp add: read_world_def same_world)

lemma world_only_version: "world_only (version env name)"
  by (rule world_onlyI) (simp add: version_def same_world split: option.splits)

lemma world_only_call: "world_only (call f)"
  by (rule world_onlyI) (auto simp: call_def split: prod.splits)

lemma world_only_bind:
  assumes "world_only m" and "\<And>x. world_only (f x)"
  shows "world_only (bind_io m f)"
proof (rule world_onlyI)
  fix s
  from world_onlyD [OF assms(1), of s] obtain r w1 where 1: "m s = (r, s\<lparr>world := w1\<rparr>)"
    by blast
  show "\<exists>r w'. bind_io m f s = (r, s\<lparr>world := w'\<rparr>)"
  proof (cases r)
    case (Inl e)
    with 1 show ?thesis by (auto simp: bind_io_def)
  next
    case (Inr x)
    from world_onlyD [OF assms(2), of x "s\<lparr>world := w1\<rparr>"]
    obtain r2 w2 where "f x (s\<lparr>world := w1\<rparr>) = (r2, s\<lparr>world := w2\<rparr>)" by auto
    with 1 Inr show ?thesis by (auto simp: bind_io_def)
  qed
qed

lemma world_only_try:
  assumes "world_only m" and "\<And>e. world_only (h e)"
  shows "world_only (try_except m h)"
proof (rule world_onlyI)
  fix s
  from world_onlyD [OF assms(1), of s] obtain r w1 where 1: "m s = (r, s\<lparr>world := w1\<rparr>)"
    by blast
  show "\<exists>r w'. try_except m h s = (r, s\<lparr>world := w'\<rparr>)"
  proof (cases r)
    case (Inr x)
    with 1 show ?thesis by (auto simp: try_except_def)
  next
    case (Inl e)
    from world_onlyD [OF assms(2), of e "s\<lparr>world := w1\<rparr>"]
    obtain r2 w2 where "h e (s\<lparr>world := w1\<rparr>) = (r2, s\<lparr>world := w2\<rparr>)" by auto
    with 1 Inl show ?thesis by (auto simp: try_except_def)
  qed
qed

lemma world_only_if:
  "world_only m1 \<Longrightarrow> world_only m2 \<Longrightarrow> world_only (if b then m1 else m2)"
  by simp

lemmas world_only_intros = world_only_bind world_only_try world_only_if world_only_return
  world_only_raise world_only_lift world_only_get_self world_only_get_global
  world_only_read_world world_only_version world_only_call

lemma world_only_system_resources: "world_only (system_resources env)"
  unfolding system_resources_def by (intro world_only_intros)

lemma world_only_check_packages: "world_only (check_packages env pkgs info)"
proof (induction pkgs arbitrary: info)
  case Nil
  then show ?case by (simp add: world_only_return)
next
  case (Cons pkg pkgs)
  obtain n a where pkg: "pkg = (n, a)" by (cases pkg)
  have h: "world_only (case e of PackageNotFoundError x \<Rightarrow> return_io v | Exception x \<Rightarrow> raise_io e)"
    for e :: exn and v :: pyval
    by (cases e) (simp_all add: world_only_return world_only_raise)
  show ?case unfolding pkg check_packages.simps
    by (intro world_only_intros h Cons.IH)
qed

lemma world_only_get_system_info: "world_only (get_system_info env)"
  unfolding get_system_info_def
  by (intro world_only_intros world_only_check_packages world_only_system_resources)









subsection \<open>The state of the server\<close>

lemma world_only_frame:
  assumes "world_only m"
  shows "self (snd (m s)) = self s \<and> py_globals (snd (m s)) = py_globals s \<and>
         spawned (snd (m s)) = spawned s"
proof -
  from world_onlyD [OF assms, of s] obtain r w' where "m s = (r, s\<lparr>world := w'\<rparr>)" by blast
  then show ?thesis by simp
qed

lemma install_frame:
  "self (snd (install_missing_packages env packages s)) = self s \<and>
   py_globals (snd (install_missing_packages env packages s)) = py_globals s"
  using install_loop_total [of env packages "[]" s]
  by (auto simp: install_missing_packages_def)

lemma run_code_quality_check_frame:
  "self (snd (run_code_quality_check env path s)) = self s \<and>
   py_globals (snd (run_code_quality_check env path s)) = py_globals s"
  by (cases "os_path_exists env (world s) path")
     (simp_all add: run_code_quality_check_exists run_code_quality_check_missing Let_def)

lemma format_code_frame:
  "self (snd (format_code env path s)) = self s \<and>
   py_globals (snd (format_code env path s)) = py_globals s"
  by (cases "os_path_exists env (world s) path")
     (simp_all add: format_code_exists format_code_missing Let_def)

text \<open>
  Claim C9. \<^verbatim>\<open>__init__\<close> computes the capabilities from the flags. After that, each of
  \<^verbatim>\<open>get_system_info\<close>, \<^verbatim>\<open>install_missing_packages\<close>, \<^verbatim>\<open>run_code_quality_check\<close> and
  \<^verbatim>\<open>format_code\<close> leaves the server object (capabilities, session identifier, start
  time) and the flags as they were, whatever it does to the outside world, and
  \<^verbatim>\<open>get_missing_packages_recommendations\<close> reads the server object and changes
  nothing. No operation probes a dependency again: the flags are read, never computed.
\<close>

theorem server_state_never_mutated:
  "capabilities (self (init env g w)) = detect_capabilities g \<and>
   py_globals (init env g w) = g \<and>
   self (snd (get_system_info env s)) = self s \<and>
   py_globals (snd (get_system_info env s)) = py_globals s \<and>
   self (snd (install_missing_packages env packages s)) = self s \<and>
   py_globals (snd (install_missing_packages env packages s)) = py_globals s \<and>
   self (snd (run_code_quality_check env path s)) = self s \<and>
   py_globals (snd (run_code_quality_check env path s)) = py_globals s \<and>
   self (snd (format_code env path s)) = self s \<and>
   py_globals (snd (format_code env path s)) = py_globals s \<and>
   get_self get_missing_packages_recommendations s =
     (Inr (get_missing_packages_recommendations (self s)), s)"
proof (intro conjI)
  show "capabilities (self (init env g w)) = detect_capabilities g"
    by (simp add: init_def Let_def split: prod.splits)
  show "py_globals (init env g w) = g"
    by (simp add: init_def Let_def split: prod.splits)
  show "self (snd (get_system_info env s)) = self s"
    using world_only_frame [OF world_only_get_system_info] by blast
  show "py_globals (snd (get_system_info env s)) = py_globals s"
    using world_only_frame [OF world_only_get_system_info] by blast
  show "self (snd (install_missing_packages env packages s)) = self s"
    using install_frame by blast
  show "py_globals (snd (install_missing_packages env packages s)) = py_globals s"
    using install_frame by blast
  show "self (snd (run_code_quality_check env path s)) = self s"
    using run_code_quality_check_frame by blast
  show "py_globals (snd (run_code_quality_check env path s)) = py_globals s"
    using run_code_quality_check_frame by blast
  show "self (snd (format_code env path s)) = self s"
    using format_code_frame by blast
  show "py_globals (snd (format_code env path s)) = py_globals s"
    using format_code_frame by blast
  show "get_self get_missing_packages_recommendations s =
     (Inr (get_missing_packages_recommendations (self s)), s)"
    by (simp add: get_self_def)
qed

end
